theory Spec2Isabelle
  imports Main "HOL-Library.Sublist"
begin

section \<open>Values exchanged with the backend\<close>

text \<open>
  The console receives employees, roles and courses as JSON objects. The model keeps the
  fields that \<^verbatim>\<open>script.js\<close> reads. Identifiers and names are held in the string form
  that a template literal gives them. The current role, the courses and the error text
  of a reply can be \<^verbatim>\<open>null\<close> or missing, which is \<open>None\<close> here. A collection is the array
  of its objects.
\<close>

record role =
  role_id :: string
  role_name :: string

record course =
  title :: string

record employee =
  employee_id :: string
  name :: string
  current_role :: "role option"
  assigned_courses :: "course list option"

text \<open>
  The body of a reply to a mutating request is an employee object on success and an
  object with an \<^verbatim>\<open>error\<close> key otherwise; the handlers read both kinds of key from the
  same parsed value.
\<close>

record body = employee +
  error :: "string option"

text \<open>
  Thrown values. Each carries the text of its \<^verbatim>\<open>message\<close> property. \<open>Error\<close> is what
  the handlers throw themselves; \<open>TypeError\<close> is raised by the engine on a property read
  from \<^verbatim>\<open>undefined\<close> or \<^verbatim>\<open>null\<close>, or by \<^verbatim>\<open>fetch\<close> on a network failure; \<open>SyntaxError\<close> is
  raised by \<^verbatim>\<open>response.json()\<close> on a body that is not JSON.
\<close>

datatype exn = Error string | TypeError string | SyntaxError string

fun message :: "exn \<Rightarrow> string" where
  "message (Error m) = m"
| "message (TypeError m) = m"
| "message (SyntaxError m) = m"

text \<open>The engine's wording (V8) for a read of property \<open>p\<close> from the value \<open>v\<close>.\<close>

definition cannot_read :: "string \<Rightarrow> string \<Rightarrow> exn" where
  "cannot_read v p =
     TypeError (''Cannot read properties of '' @ v @ '' (reading '' @ [CHR 0x27] @ p @ [CHR 0x27] @ '')'')"

text \<open>
  What a request comes back with: \<^verbatim>\<open>fetch\<close> rejects, or a response arrives with its
  \<^verbatim>\<open>ok\<close> flag and \<^verbatim>\<open>response.json()\<close> either rejects or yields the parsed body.
\<close>

datatype 'a fetched = Rejected exn | Response bool "exn + 'a"

datatype request = GET string | POST string string | PUT string string

section \<open>Renderer\<close>

text \<open>
  \<^verbatim>\<open>renderEmployeeCard\<close> is a template literal. The interpolations are evaluated left to
  right; the only one that can throw is \<^verbatim>\<open>emp.assigned_courses.length\<close>.
\<close>

definition course_item :: "course \<Rightarrow> string" where
  "course_item c = ''<li>'' @ title c @ ''</li>''"

definition renderEmployeeCard :: "'a employee_scheme \<Rightarrow> exn + string" where
  \<open>renderEmployeeCard emp =
    (case assigned_courses emp of
       None \<Rightarrow> Inl (cannot_read ''undefined'' ''length'')
     | Some courses \<Rightarrow> Inr (
         ''\<newline>            ''
       @ ''<div class="employee-card" id="employee-card-'' @ employee_id emp @ ''">''
       @ ''\<newline>                ''
       @ ''<p><strong>Name:</strong> '' @ name emp @ '' (ID: '' @ employee_id emp @ '')</p>''
       @ ''\<newline>                ''
       @ ''<p><strong>Current Role:</strong> ''
       @ (case current_role emp of Some r \<Rightarrow> role_name r | None \<Rightarrow> ''Not Assigned'')
       @ ''</p>''
       @ ''\<newline>                ''
       @ ''<p><strong>Assigned Courses:</strong></p>''
       @ ''\<newline>                ''
       @ ''<ul>''
       @ ''\<newline>                    ''
       @ (if length courses > 0 then concat (map course_item courses) else ''<li>None</li>'')
       @ ''\<newline>                ''
       @ ''</ul>''
       @ ''\<newline>            ''
       @ ''</div>''
       @ ''\<newline>        ''))\<close>

section \<open>The page\<close>

text \<open>
  The handlers work on seven elements of the page, looked up once when the document has
  loaded. The state below holds what the script reads and writes of each of them,
  together with the pending timers and the time in milliseconds.

  The browser's HTML parser is not part of the script. A child of the list container is
  kept with the markup it was parsed from; for a card the model records the \<^verbatim>\<open>id\<close>
  attribute and the class that the template of \<^verbatim>\<open>renderEmployeeCard\<close> writes, which is
  what the parser yields when the interpolated identifier and name carry no markup
  characters. Each card element has a handle of its own, so that a timer holds on to the
  element it was created for even after that element has left the document.
\<close>

record button =
  disabled :: bool
  btn_textContent :: string

record select =
  sel_options :: "(string \<times> string) list"
  selectedIndex :: "nat option"

record status_line =
  msg_textContent :: string
  msg_color :: string

datatype node =
    Paragraph string string
  | Card nat string string "string list"

datatype timer = ClearMessage | RemoveUpdated nat

record ui =
  employeeSelect :: select
  roleSelect :: select
  assignBtn :: button
  employeeListDiv :: "node list"
  newEmployeeNameInput :: string
  createEmployeeBtn :: button
  messageArea :: status_line
  timers :: "(nat \<times> timer) list"
  clock :: nat
  fresh :: nat

fun node_markup :: "node \<Rightarrow> string" where
  "node_markup (Paragraph m t) = m"
| "node_markup (Card h k m cs) = m"

fun node_id :: "node \<Rightarrow> string option" where
  "node_id (Paragraph m t) = None"
| "node_id (Card h k m cs) = Some k"

fun is_card :: "node \<Rightarrow> bool" where
  "is_card (Paragraph m t) = False"
| "is_card (Card h k m cs) = True"

text \<open>The markup of the list container, as the script wrote it.\<close>

definition innerHTML :: "node list \<Rightarrow> string" where
  "innerHTML ns = concat (map node_markup ns)"

text \<open>The two paragraphs the script puts in place of the list.\<close>

definition no_employees :: node where
  \<open>no_employees = Paragraph ''<p>No employees found.</p>'' ''No employees found.''\<close>

definition load_error :: node where
  \<open>load_error =
     Paragraph ''<p style="color: red;">Error loading employee data.</p>''
       ''Error loading employee data.''\<close>

text \<open>
  The element parsed from a card's markup: \<^verbatim>\<open>id="employee-card-${emp.employee_id}"\<close> and
  \<^verbatim>\<open>class="employee-card"\<close>.
\<close>

definition card_key :: "'a employee_scheme \<Rightarrow> string" where
  "card_key emp = ''employee-card-'' @ employee_id emp"

definition card_element :: "nat \<Rightarrow> 'a employee_scheme \<Rightarrow> string \<Rightarrow> node" where
  "card_element h emp markup = Card h (card_key emp) markup [''employee-card'']"

text \<open>
  \<^verbatim>\<open>document.getElementById\<close>: the first element with that id, in document order. The
  fixed elements of the page have other ids, so the search goes through the children of
  the list container; the result is the position of the element found.
\<close>

fun getElementById :: "string \<Rightarrow> node list \<Rightarrow> nat option" where
  "getElementById k [] = None"
| "getElementById k (n # ns) =
     (if node_id n = Some k then Some 0 else map_option Suc (getElementById k ns))"

text \<open>
  \<^verbatim>\<open>employeeListDiv.querySelector('p')\<close> followed by the comparison of its text with the
  sentinel. The first paragraph of the container is either a paragraph child or the name
  line of the first card, whose text starts with \<^verbatim>\<open>Name:\<close> and so never is the sentinel.
\<close>

fun sentinel_showing :: "node list \<Rightarrow> bool" where
  "sentinel_showing (Paragraph m t # ns) = (t = ''No employees found.'')"
| "sentinel_showing ns = False"

fun classList_add :: "string \<Rightarrow> node \<Rightarrow> node" where
  "classList_add c (Card h k m cs) = Card h k m (if c \<in> set cs then cs else cs @ [c])"
| "classList_add c n = n"

fun classList_remove :: "string \<Rightarrow> nat \<Rightarrow> node \<Rightarrow> node" where
  "classList_remove c h (Card h' k m cs) =
     (if h' = h then Card h' k m (filter (\<lambda>x. x \<noteq> c) cs) else Card h' k m cs)"
| "classList_remove c h n = n"

fun handle :: "node \<Rightarrow> nat" where
  "handle (Card h k m cs) = h"
| "handle n = 0"

text \<open>
  A drop-down: its \<^verbatim>\<open>value\<close> is the value of the selected option, or the empty string
  when none is selected. Assigning \<^verbatim>\<open>value\<close> selects the first option with that value and
  leaves none selected when there is no such option. A drop-down whose options change
  while none is selected shows its first option.
\<close>

fun first_index :: "('a \<Rightarrow> bool) \<Rightarrow> 'a list \<Rightarrow> nat option" where
  "first_index P [] = None"
| "first_index P (x # xs) = (if P x then Some 0 else map_option Suc (first_index P xs))"

definition sel_value :: "select \<Rightarrow> string" where
  "sel_value sel =
     (case selectedIndex sel of
        None \<Rightarrow> []
      | Some i \<Rightarrow> if i < length (sel_options sel) then fst (sel_options sel ! i) else [])"

definition set_value :: "string \<Rightarrow> select \<Rightarrow> select" where
  "set_value v sel = sel\<lparr>selectedIndex := first_index (\<lambda>opt. fst opt = v) (sel_options sel)\<rparr>"

definition set_options :: "(string \<times> string) list \<Rightarrow> select" where
  "set_options opts =
     \<lparr>sel_options = opts, selectedIndex = (if opts = [] then None else Some 0)\<rparr>"

definition appendChild :: "string \<times> string \<Rightarrow> select \<Rightarrow> select" where
  "appendChild opt sel =
     \<lparr>sel_options = sel_options sel @ [opt],
      selectedIndex = (case selectedIndex sel of None \<Rightarrow> Some 0 | Some i \<Rightarrow> Some i)\<rparr>"

section \<open>Notifier and timers\<close>

text \<open>
  \<^verbatim>\<open>setTimeout\<close> puts a callback at the end of the pending timers with the time at which
  it is due. The script never cancels a timer.
\<close>

definition setTimeout :: "timer \<Rightarrow> nat \<Rightarrow> ui \<Rightarrow> ui" where
  "setTimeout cb delay s = s\<lparr>timers := timers s @ [(clock s + delay, cb)]\<rparr>"

definition showMessage :: "string \<Rightarrow> string \<Rightarrow> ui \<Rightarrow> ui" where
  "showMessage text color s =
     setTimeout ClearMessage 5000
       (s\<lparr>messageArea := \<lparr>msg_textContent = text, msg_color = color\<rparr>\<rparr>)"

fun run_timer :: "timer \<Rightarrow> ui \<Rightarrow> ui" where
  "run_timer ClearMessage s = s\<lparr>messageArea := (messageArea s)\<lparr>msg_textContent := []\<rparr>\<rparr>"
| "run_timer (RemoveUpdated h) s =
     s\<lparr>employeeListDiv := map (classList_remove ''updated'' h) (employeeListDiv s)\<rparr>"

text \<open>
  Time passes up to \<open>t\<close>: the timers due by then run, earliest first and in the order
  of their creation when due together; the others stay pending. No callback of the
  script creates a timer.
\<close>

definition due :: "nat \<Rightarrow> nat \<times> timer \<Rightarrow> bool" where
  "due t p = (fst p \<le> t)"

definition advance :: "nat \<Rightarrow> ui \<Rightarrow> ui" where
  "advance t s =
     fold (\<lambda>p. run_timer (snd p)) (sort_key fst (filter (due t) (timers s)))
       (s\<lparr>timers := filter (\<lambda>p. \<not> due t p) (timers s), clock := max t (clock s)\<rparr>)"

section \<open>Loading the collections\<close>

text \<open>
  \<^verbatim>\<open>employees.map(renderEmployeeCard)\<close>: the cards in the order of the array; the first
  card that throws ends the whole call.
\<close>

fun render_cards :: "employee list \<Rightarrow> exn + string list" where
  "render_cards [] = Inr []"
| "render_cards (emp # emps) =
     (case renderEmployeeCard emp of
        Inl e \<Rightarrow> Inl e
      | Inr m \<Rightarrow> (case render_cards emps of Inl e \<Rightarrow> Inl e | Inr ms \<Rightarrow> Inr (m # ms)))"

fun card_elements :: "nat \<Rightarrow> employee list \<Rightarrow> string list \<Rightarrow> node list" where
  "card_elements h (emp # emps) (m # ms) = card_element h emp m # card_elements (Suc h) emps ms"
| "card_elements h emps ms = []"

text \<open>
  \<^verbatim>\<open>renderEmployeeList\<close> returns nothing; it assigns the \<^verbatim>\<open>innerHTML\<close> of the list container.
  The result is the error thrown, if any, and the page. Its argument is an array here, so
  the test \<^verbatim>\<open>!employees\<close> for a missing argument is the test for the empty array.
\<close>

definition renderEmployeeList :: "employee list \<Rightarrow> ui \<Rightarrow> exn option \<times> ui" where
  "renderEmployeeList employees s =
     (if length employees = 0 then (None, s\<lparr>employeeListDiv := [no_employees]\<rparr>)
      else
        (case render_cards employees of
           Inl e \<Rightarrow> (Some e, s)
         | Inr ms \<Rightarrow>
             (None, s\<lparr>employeeListDiv := card_elements (fresh s) employees ms,
                      fresh := fresh s + length ms\<rparr>)))"

text \<open>
  \<^verbatim>\<open>fetchEmployees\<close> issues its request when called and goes on when the reply is there.
  It does not look at the status of the response.
\<close>

definition fetchEmployees :: request where
  "fetchEmployees = GET ''/api/employees''"

definition fetchEmployees_resume :: "employee list fetched \<Rightarrow> ui \<Rightarrow> ui" where
  "fetchEmployees_resume r s =
     (case r of
        Rejected e \<Rightarrow> s\<lparr>employeeListDiv := [load_error]\<rparr>
      | Response ok (Inl e) \<Rightarrow> s\<lparr>employeeListDiv := [load_error]\<rparr>
      | Response ok (Inr employees) \<Rightarrow>
          (let s1 = s\<lparr>employeeSelect :=
                       set_options (map (\<lambda>emp. (employee_id emp, name emp)) employees)\<rparr>
           in case renderEmployeeList employees s1 of
                (Some e, s2) \<Rightarrow> s2\<lparr>employeeListDiv := [load_error]\<rparr>
              | (None, s2) \<Rightarrow> s2))"

definition fetchRoles :: request where
  "fetchRoles = GET ''/api/roles''"

definition fetchRoles_resume :: "role list fetched \<Rightarrow> ui \<Rightarrow> ui" where
  "fetchRoles_resume r s =
     (case r of
        Rejected e \<Rightarrow> s
      | Response ok (Inl e) \<Rightarrow> s
      | Response ok (Inr roles) \<Rightarrow>
          s\<lparr>roleSelect := set_options (map (\<lambda>r. (role_id r, role_name r)) roles)\<rparr>)"

section \<open>Mutation handlers\<close>

text \<open>
  \<^verbatim>\<open>String.prototype.trim\<close> on the white space of the model's character set: tab, line
  feed, vertical tab, form feed, carriage return and space.
\<close>

definition isWhiteSpace :: "char \<Rightarrow> bool" where
  "isWhiteSpace c =
     (c = CHR 0x09 \<or> c = CHR 0x0A \<or> c = CHR 0x0B \<or> c = CHR 0x0C \<or> c = CHR 0x0D \<or> c = CHR 0x20)"

definition trim :: "string \<Rightarrow> string" where
  "trim x = rev (dropWhile isWhiteSpace (rev (dropWhile isWhiteSpace x)))"

text \<open>\<^verbatim>\<open>body.error || fallback\<close>: a missing key and the empty string are both falsy.\<close>

fun or_else :: "string option \<Rightarrow> string \<Rightarrow> string" where
  "or_else None d = d"
| "or_else (Some m) d = (if m = [] then d else m)"

text \<open>
  \<^verbatim>\<open>newCard.classList.add('updated')\<close> on the element at position \<open>i\<close>, and the timer that
  takes the class off that element two seconds later. The position is always one that
  \<open>getElementById\<close> has just found in the same list, so it is in range.
\<close>

definition highlight :: "nat \<Rightarrow> ui \<Rightarrow> ui" where
  "highlight i s =
     setTimeout (RemoveUpdated (handle (employeeListDiv s ! i))) 2000
       (s\<lparr>employeeListDiv :=
            (employeeListDiv s)[i := classList_add ''updated'' (employeeListDiv s ! i)]\<rparr>)"

text \<open>
  A handler is an \<^verbatim>\<open>async\<close> function. Its first part runs when the button is clicked, up
  to the request; the result is the page and the request issued, if any. The rest runs
  when the reply is there, on the page as it is by then.
\<close>

definition handleCreateEmployee :: "ui \<Rightarrow> ui \<times> request option" where
  "handleCreateEmployee s =
     (let candidate = trim (newEmployeeNameInput s) in
      if candidate = [] then
        (showMessage ''Please enter a name for the new employee.'' ''red'' s, None)
      else
        (s\<lparr>createEmployeeBtn := \<lparr>disabled = True, btn_textContent = ''Creating...''\<rparr>\<rparr>,
         Some (POST ''/api/employees'' candidate)))"

text \<open>The \<^verbatim>\<open>try\<close> block from the reply on: the error thrown, if any, and the page then.\<close>

definition handleCreateEmployee_try :: "body fetched \<Rightarrow> ui \<Rightarrow> exn option \<times> ui" where
  "handleCreateEmployee_try r s =
     (case r of
        Rejected e \<Rightarrow> (Some e, s)
      | Response ok (Inl e) \<Rightarrow> (Some e, s)
      | Response ok (Inr newEmployee) \<Rightarrow>
          if \<not> ok then
            (Some (Error (or_else (error newEmployee) ''Failed to create employee.'')), s)
          else
            (let s1 = showMessage
                        (''Successfully created employee: '' @ name newEmployee @ ''.'')
                        ''green'' s;
                 s2 = (if sentinel_showing (employeeListDiv s1)
                       then s1\<lparr>employeeListDiv := []\<rparr> else s1)
             in case renderEmployeeCard newEmployee of
                  Inl e \<Rightarrow> (Some e, s2)
                | Inr markup \<Rightarrow>
                    (let s3 = s2\<lparr>employeeListDiv :=
                                   employeeListDiv s2 @ [card_element (fresh s2) newEmployee markup],
                                 fresh := Suc (fresh s2)\<rparr>;
                         s4 = s3\<lparr>employeeSelect :=
                                   appendChild (employee_id newEmployee, name newEmployee)
                                     (employeeSelect s3)\<rparr>;
                         s5 = s4\<lparr>employeeSelect :=
                                   set_value (employee_id newEmployee) (employeeSelect s4)\<rparr>
                     in case getElementById (card_key newEmployee) (employeeListDiv s5) of
                          None \<Rightarrow> (Some (cannot_read ''null'' ''classList''), s5)
                        | Some i \<Rightarrow> (None, (highlight i s5)\<lparr>newEmployeeNameInput := []\<rparr>))))"

text \<open>\<^verbatim>\<open>catch\<close> shows the message of what was thrown; \<^verbatim>\<open>finally\<close> resets the button.\<close>

definition handleCreateEmployee_resume :: "body fetched \<Rightarrow> ui \<Rightarrow> ui" where
  "handleCreateEmployee_resume r s =
     (let (thrown, s1) = handleCreateEmployee_try r s;
          s2 = (case thrown of Some e \<Rightarrow> showMessage (message e) ''red'' s1 | None \<Rightarrow> s1)
      in s2\<lparr>createEmployeeBtn := \<lparr>disabled = False, btn_textContent = ''Create Employee''\<rparr>\<rparr>)"

definition handleAssignRole :: "ui \<Rightarrow> ui \<times> request option" where
  "handleAssignRole s =
     (let employeeId = sel_value (employeeSelect s);
          roleId = sel_value (roleSelect s)
      in if employeeId = [] \<or> roleId = [] then
           (showMessage ''Please select both an employee and a role.'' ''red'' s, None)
         else
           (s\<lparr>assignBtn := \<lparr>disabled = True, btn_textContent = ''Assigning...''\<rparr>\<rparr>,
            Some (PUT (''/api/employees/'' @ employeeId @ ''/assign-role'') roleId)))"

text \<open>
  The third component is the request of the call \<^verbatim>\<open>fetchEmployees()\<close> in the fallback
  branch; its reply is handled by \<open>fetchEmployees_resume\<close>.
\<close>

definition handleAssignRole_try ::
  "body fetched \<Rightarrow> ui \<Rightarrow> exn option \<times> ui \<times> request option" where
  "handleAssignRole_try r s =
     (case r of
        Rejected e \<Rightarrow> (Some e, s, None)
      | Response ok (Inl e) \<Rightarrow> (Some e, s, None)
      | Response ok (Inr updatedEmployee) \<Rightarrow>
          if \<not> ok then
            (Some (Error (or_else (error updatedEmployee) ''Failed to assign role.'')), s, None)
          else
            (let s1 = showMessage
                        (''Successfully assigned new role to '' @ name updatedEmployee @ ''.'')
                        ''green'' s
             in case getElementById (card_key updatedEmployee) (employeeListDiv s1) of
                  Some i \<Rightarrow>
                    (case renderEmployeeCard updatedEmployee of
                       Inl e \<Rightarrow> (Some e, s1, None)
                     | Inr markup \<Rightarrow>
                         (let s2 = s1\<lparr>employeeListDiv :=
                                        (employeeListDiv s1)
                                          [i := card_element (fresh s1) updatedEmployee markup],
                                      fresh := Suc (fresh s1)\<rparr>
                          in case getElementById (card_key updatedEmployee) (employeeListDiv s2) of
                               None \<Rightarrow> (Some (cannot_read ''null'' ''classList''), s2, None)
                             | Some j \<Rightarrow> (None, highlight j s2, None)))
                | None \<Rightarrow> (None, s1, Some fetchEmployees)))"

definition handleAssignRole_resume :: "body fetched \<Rightarrow> ui \<Rightarrow> ui \<times> request option" where
  "handleAssignRole_resume r s =
     (let (thrown, s1, reload) = handleAssignRole_try r s;
          s2 = (case thrown of Some e \<Rightarrow> showMessage (message e) ''red'' s1 | None \<Rightarrow> s1)
      in (s2\<lparr>assignBtn := \<lparr>disabled = False, btn_textContent = ''Assign Role''\<rparr>\<rparr>, reload))"

section \<open>Pages and replies used as examples\<close>

text \<open>
  The page right after the script has started and both collections have come back empty,
  with a name typed into the input.
\<close>

definition page0 :: ui where
  "page0 =
     \<lparr>employeeSelect = \<lparr>sel_options = [], selectedIndex = None\<rparr>,
      roleSelect = \<lparr>sel_options = [], selectedIndex = None\<rparr>,
      assignBtn = \<lparr>disabled = False, btn_textContent = ''Assign Role''\<rparr>,
      employeeListDiv = [no_employees],
      newEmployeeNameInput = ''Ada'',
      createEmployeeBtn = \<lparr>disabled = False, btn_textContent = ''Create Employee''\<rparr>,
      messageArea = \<lparr>msg_textContent = [], msg_color = []\<rparr>,
      timers = [],
      clock = 0,
      fresh = 0\<rparr>"



text \<open>
  Employee 7 as first loaded, the page showing that employee, and two replies to a role
  assignment: \<^verbatim>\<open>{employee_id: "7", name: "Bo", current_role: {role_id: "3", name: "Trainer"}}\<close>
  and the same with the courses of the role.
\<close>

definition bo :: employee where
  "bo = \<lparr>employee_id = ''7'', name = ''Bo'', current_role = None, assigned_courses = Some []\<rparr>"

definition page7 :: ui where
  "page7 =
     fetchRoles_resume
       (Response True (Inr [\<lparr>role_id = ''3'', role_name = ''Trainer''\<rparr>]))
       (fetchEmployees_resume (Response True (Inr [bo])) page0)"

definition bo_partial :: body where
  "bo_partial =
     \<lparr>employee_id = ''7'', name = ''Bo'',
      current_role = Some \<lparr>role_id = ''3'', role_name = ''Trainer''\<rparr>,
      assigned_courses = None, error = None\<rparr>"


text \<open>The click on the create button on that page, and the page after each reply.\<close>

definition create_busy :: ui where
  "create_busy = fst (handleCreateEmployee page0)"






definition assign_busy_unloaded :: ui where
  "assign_busy_unloaded =
     fst (handleAssignRole (fetchEmployees_resume (Rejected (TypeError ''Failed to fetch'')) page7))"


definition bo_partial_reload :: "ui \<times> request option" where
  "bo_partial_reload =
     handleAssignRole_resume (Response True (Inr bo_partial)) assign_busy_unloaded"


text \<open>
  The create request answered with an error status and a body that is not JSON, and a
  request that fails on the network.
\<close>

definition not_json_result :: ui where
  "not_json_result =
     handleCreateEmployee_resume
       (Response False (Inl (SyntaxError ''Unexpected token < in JSON at position 0'')))
       create_busy"

definition network_failure :: "body fetched" where
  "network_failure = Rejected (TypeError ''Failed to fetch'')"


text \<open>A message shown at time 0 and another shown three seconds later.\<close>

definition two_messages :: ui where
  "two_messages = showMessage ''B'' ''green'' (advance 3000 (showMessage ''A'' ''red'' page0))"

section \<open>Facts about lists and strings\<close>






section \<open>The card of an employee\<close>


lemma renderEmployeeCard_Some:
  "assigned_courses emp = Some cs \<Longrightarrow> \<exists>m. renderEmployeeCard emp = Inr m"
  by (simp add: renderEmployeeCard_def)



section \<open>Facts about the page\<close>




lemma node_markup_classList_add [simp]: "node_markup (classList_add c n) = node_markup n"
  by (cases n) simp_all

lemma node_id_classList_add [simp]: "node_id (classList_add c n) = node_id n"
  by (cases n) simp_all





section \<open>Creating an employee\<close>

lemmas create_defs =
  handleCreateEmployee_resume_def handleCreateEmployee_try_def Let_def showMessage_def
  setTimeout_def highlight_def card_element_def appendChild_def set_value_def





section \<open>Assigning a role\<close>

lemmas assign_defs =
  handleAssignRole_resume_def handleAssignRole_try_def Let_def showMessage_def
  setTimeout_def highlight_def card_element_def fetchEmployees_def






section \<open>Validation\<close>



section \<open>Replies with an error status\<close>

text \<open>
  Claim C4, as amended. For a reply with an error status whose body is a JSON object,
  both handlers show in red the \<^verbatim>\<open>error\<close> of the body when it has one that is not empty,
  and their fixed fallback text otherwise; for a body that is not JSON they show the
  message of the error that \<^verbatim>\<open>response.json()\<close> rejects with. In each case the error ends
  in the status line, the list, the selector and the input are left as they are, and no
  reload is requested.
\<close>

theorem backend_error_message:
  "messageArea (handleCreateEmployee_resume (Response False (Inr b)) s)
     = \<lparr>msg_textContent =
          (case error b of
             None \<Rightarrow> ''Failed to create employee.''
           | Some m \<Rightarrow> if m = [] then ''Failed to create employee.'' else m),
        msg_color = ''red''\<rparr>
   \<and> messageArea (fst (handleAssignRole_resume (Response False (Inr b)) s))
     = \<lparr>msg_textContent =
          (case error b of
             None \<Rightarrow> ''Failed to assign role.''
           | Some m \<Rightarrow> if m = [] then ''Failed to assign role.'' else m),
        msg_color = ''red''\<rparr>
   \<and> messageArea (handleCreateEmployee_resume (Response ok (Inl e)) s)
     = \<lparr>msg_textContent = message e, msg_color = ''red''\<rparr>
   \<and> messageArea (fst (handleAssignRole_resume (Response ok (Inl e)) s))
     = \<lparr>msg_textContent = message e, msg_color = ''red''\<rparr>
   \<and> employeeListDiv (handleCreateEmployee_resume (Response False j) s) = employeeListDiv s
   \<and> employeeSelect (handleCreateEmployee_resume (Response False j) s) = employeeSelect s
   \<and> newEmployeeNameInput (handleCreateEmployee_resume (Response False j) s)
     = newEmployeeNameInput s
   \<and> employeeListDiv (fst (handleAssignRole_resume (Response False j) s)) = employeeListDiv s
   \<and> snd (handleAssignRole_resume (Response False j) s) = None"
  by (cases j; cases "error b")
    (simp_all add: handleCreateEmployee_resume_def handleCreateEmployee_try_def
      handleAssignRole_resume_def handleAssignRole_try_def showMessage_def setTimeout_def)

text \<open>
  Claim C4 as stated fails for an error status with a body that is not JSON: the status
  line shows the parser's message, which is neither a message supplied by the server nor
  the fallback text.
\<close>

theorem backend_error_not_json:
  "messageArea not_json_result
     = \<lparr>msg_textContent = ''Unexpected token < in JSON at position 0'', msg_color = ''red''\<rparr>
   \<and> msg_textContent (messageArea not_json_result) \<noteq> ''Failed to create employee.''"
  by code_simp

section \<open>The triggering control\<close>

text \<open>
  Claim C5. Whatever the request comes back with and whatever the page is by then, the
  rest of \<open>handleCreateEmployee\<close> leaves its button enabled with the label
  \<^verbatim>\<open>Create Employee\<close>, and the rest of \<open>handleAssignRole\<close> leaves its button enabled with the
  label \<^verbatim>\<open>Assign Role\<close>. A click that passes validation disables the button and gives it
  the busy label; when the button was enabled and had that label before the click, the
  action gives it back its state from before the click.
\<close>

theorem control_restored:
  "createEmployeeBtn (handleCreateEmployee_resume r s')
     = \<lparr>disabled = False, btn_textContent = ''Create Employee''\<rparr>
   \<and> assignBtn (fst (handleAssignRole_resume r s'))
     = \<lparr>disabled = False, btn_textContent = ''Assign Role''\<rparr>
   \<and> (snd (handleCreateEmployee s) \<noteq> None \<longrightarrow>
        createEmployeeBtn (fst (handleCreateEmployee s))
        = \<lparr>disabled = True, btn_textContent = ''Creating...''\<rparr>)
   \<and> (snd (handleCreateEmployee s) \<noteq> None
      \<and> createEmployeeBtn s = \<lparr>disabled = False, btn_textContent = ''Create Employee''\<rparr> \<longrightarrow>
        createEmployeeBtn (handleCreateEmployee_resume r (fst (handleCreateEmployee s)))
        = createEmployeeBtn s)
   \<and> (snd (handleAssignRole s) \<noteq> None \<longrightarrow>
        assignBtn (fst (handleAssignRole s))
        = \<lparr>disabled = True, btn_textContent = ''Assigning...''\<rparr>)
   \<and> (snd (handleAssignRole s) \<noteq> None
      \<and> assignBtn s = \<lparr>disabled = False, btn_textContent = ''Assign Role''\<rparr> \<longrightarrow>
        assignBtn (fst (handleAssignRole_resume r (fst (handleAssignRole s))))
        = assignBtn s)"
proof -
  have c: "createEmployeeBtn (handleCreateEmployee_resume r x)
     = \<lparr>disabled = False, btn_textContent = ''Create Employee''\<rparr>" for x
    by (simp add: handleCreateEmployee_resume_def split: prod.split)
  have a: "assignBtn (fst (handleAssignRole_resume r x))
     = \<lparr>disabled = False, btn_textContent = ''Assign Role''\<rparr>" for x
    by (simp add: handleAssignRole_resume_def split: prod.split)
  show ?thesis
    by (simp add: c a) (simp add: handleCreateEmployee_def handleAssignRole_def Let_def)
qed

text \<open>
  Claim C5 on a create request and an assign request that both fail on the network.
\<close>

theorem control_restored_examples:
  "snd (handleCreateEmployee page0) = Some (POST ''/api/employees'' ''Ada'')
   \<and> createEmployeeBtn page0 = \<lparr>disabled = False, btn_textContent = ''Create Employee''\<rparr>
   \<and> createEmployeeBtn (fst (handleCreateEmployee page0))
     = \<lparr>disabled = True, btn_textContent = ''Creating...''\<rparr>
   \<and> createEmployeeBtn (handleCreateEmployee_resume network_failure (fst (handleCreateEmployee page0)))
     = createEmployeeBtn page0
   \<and> snd (handleAssignRole page7) = Some (PUT ''/api/employees/7/assign-role'' ''3'')
   \<and> assignBtn page7 = \<lparr>disabled = False, btn_textContent = ''Assign Role''\<rparr>
   \<and> assignBtn (fst (handleAssignRole page7))
     = \<lparr>disabled = True, btn_textContent = ''Assigning...''\<rparr>
   \<and> assignBtn (fst (handleAssignRole_resume network_failure (fst (handleAssignRole page7))))
     = assignBtn page7"
proof -
  have p: "snd (handleCreateEmployee page0) = Some (POST ''/api/employees'' ''Ada'')"
    "createEmployeeBtn page0 = \<lparr>disabled = False, btn_textContent = ''Create Employee''\<rparr>"
    "snd (handleAssignRole page7) = Some (PUT ''/api/employees/7/assign-role'' ''3'')"
    "assignBtn page7 = \<lparr>disabled = False, btn_textContent = ''Assign Role''\<rparr>"
    by code_simp+
  from control_restored [of network_failure "fst (handleCreateEmployee page0)" page0]
    control_restored [of network_failure "fst (handleAssignRole page7)" page7] p
  show ?thesis by simp
qed

section \<open>Replies without courses\<close>

text \<open>
  Claim C10, as amended. \<open>renderEmployeeCard\<close> returns markup for every employee value
  whose \<^verbatim>\<open>assigned_courses\<close> is an array, empty or not, and throws for every employee value
  in which it is \<^verbatim>\<open>null\<close> or missing. With such a body and a success status,
  \<open>handleCreateEmployee\<close> ends in the thrown error and adds neither a card nor an option,
  and \<open>handleAssignRole\<close> ends in the thrown error and leaves the list as it is when a
  card with the key of the body is in the list; when no such card is in the list it
  throws nothing, since the fallback does not render the body.
\<close>

theorem card_requires_courses:
  "(\<exists>m. renderEmployeeCard (emp\<lparr>assigned_courses := Some cs\<rparr>) = Inr m)
   \<and> renderEmployeeCard (emp\<lparr>assigned_courses := None\<rparr>)
     = Inl (cannot_read ''undefined'' ''length'')
   \<and> fst (handleCreateEmployee_try (Response True (Inr (b\<lparr>assigned_courses := None\<rparr>))) s)
     = Some (cannot_read ''undefined'' ''length'')
   \<and> map node_id
        (employeeListDiv
          (handleCreateEmployee_resume (Response True (Inr (b\<lparr>assigned_courses := None\<rparr>))) s))
     = map node_id (if sentinel_showing (employeeListDiv s) then [] else employeeListDiv s)
   \<and> employeeSelect
        (handleCreateEmployee_resume (Response True (Inr (b\<lparr>assigned_courses := None\<rparr>))) s)
     = employeeSelect s
   \<and> fst (handleAssignRole_try (Response True (Inr (b\<lparr>assigned_courses := None\<rparr>))) s)
     = (case getElementById (card_key b) (employeeListDiv s) of
          Some i \<Rightarrow> Some (cannot_read ''undefined'' ''length'')
        | None \<Rightarrow> None)
   \<and> employeeListDiv
        (fst (handleAssignRole_resume (Response True (Inr (b\<lparr>assigned_courses := None\<rparr>))) s))
     = employeeListDiv s"
proof -
  have r: "renderEmployeeCard (x\<lparr>assigned_courses := None\<rparr>)
     = Inl (cannot_read ''undefined'' ''length'')" for x :: "'z employee_scheme"
    by (simp add: renderEmployeeCard_def)
  have k: "card_key (b\<lparr>assigned_courses := None\<rparr>) = card_key b"
    by (simp add: card_key_def)
  show ?thesis
    by (cases "getElementById (card_key b) (employeeListDiv s)")
      (simp_all add: r k renderEmployeeCard_Some create_defs assign_defs)
qed

text \<open>
  Claim C10 as stated fails on the fallback path of \<open>handleAssignRole\<close>: while the page
  shows a failed load, a success reply without \<^verbatim>\<open>assigned_courses\<close> throws nothing, keeps
  the success message and requests the collection.
\<close>

theorem assign_reload_without_courses:
  "assigned_courses bo_partial = None
   \<and> fst (handleAssignRole_try (Response True (Inr bo_partial)) assign_busy_unloaded) = None
   \<and> snd bo_partial_reload = Some (GET ''/api/employees'')
   \<and> messageArea (fst bo_partial_reload)
     = \<lparr>msg_textContent = ''Successfully assigned new role to Bo.'', msg_color = ''green''\<rparr>"
  by code_simp

section \<open>The list of employees\<close>


lemma render_cards_length: "render_cards es = Inr ms \<Longrightarrow> length ms = length es"
  by (induction es arbitrary: ms) (auto split: sum.splits)

lemma card_elements_facts:
  assumes "length ms = length es"
  shows "length (card_elements h es ms) = length es"
    and "map node_markup (card_elements h es ms) = ms"
    and "map node_id (card_elements h es ms) = map (\<lambda>emp. Some (card_key emp)) es"
    and "list_all is_card (card_elements h es ms)"
  using assms
  by (induction ms es arbitrary: h rule: list_induct2; simp add: card_element_def)+






section \<open>Rendering twice\<close>

text \<open>
  Claim C9, as amended. \<open>renderEmployeeCard\<close> is a function of the four fields it reads:
  two employee values that agree on them give the same result. \<open>renderEmployeeList\<close>
  returns nothing and writes the page; what it throws and the markup it writes depend on
  its argument only and not on the page it is called on, so rendering the same data again
  gives the same list markup byte for byte; when it throws it leaves the page as it is,
  and in any case it touches nothing but the list container.
\<close>

theorem renderer_deterministic:
  "renderEmployeeCard
     \<lparr>employee_id = i, name = n, current_role = r, assigned_courses = c, \<dots> = x\<rparr>
   = renderEmployeeCard
       \<lparr>employee_id = i, name = n, current_role = r, assigned_courses = c, \<dots> = y\<rparr>
   \<and> fst (renderEmployeeList es s1) = fst (renderEmployeeList es s2)
   \<and> (case fst (renderEmployeeList es s1) of
        None \<Rightarrow>
          innerHTML (employeeListDiv (snd (renderEmployeeList es s1)))
          = innerHTML (employeeListDiv (snd (renderEmployeeList es s2)))
      | Some e \<Rightarrow> snd (renderEmployeeList es s1) = s1)
   \<and> innerHTML (employeeListDiv (snd (renderEmployeeList es (snd (renderEmployeeList es s1)))))
     = innerHTML (employeeListDiv (snd (renderEmployeeList es s1)))
   \<and> (snd (renderEmployeeList es s1))\<lparr>employeeListDiv := l, fresh := f\<rparr>
     = s1\<lparr>employeeListDiv := l, fresh := f\<rparr>"
proof -
  have card: "renderEmployeeCard
     \<lparr>employee_id = i, name = n, current_role = r, assigned_courses = c, \<dots> = x\<rparr>
   = renderEmployeeCard
       \<lparr>employee_id = i, name = n, current_role = r, assigned_courses = c, \<dots> = y\<rparr>"
    by (cases c) (simp_all add: renderEmployeeCard_def)
  have rest: "fst (renderEmployeeList es s1) = fst (renderEmployeeList es s2)
   \<and> (case fst (renderEmployeeList es s1) of
        None \<Rightarrow>
          innerHTML (employeeListDiv (snd (renderEmployeeList es s1)))
          = innerHTML (employeeListDiv (snd (renderEmployeeList es s2)))
      | Some e \<Rightarrow> snd (renderEmployeeList es s1) = s1)
   \<and> innerHTML (employeeListDiv (snd (renderEmployeeList es (snd (renderEmployeeList es s1)))))
     = innerHTML (employeeListDiv (snd (renderEmployeeList es s1)))
   \<and> (snd (renderEmployeeList es s1))\<lparr>employeeListDiv := l, fresh := f\<rparr>
     = s1\<lparr>employeeListDiv := l, fresh := f\<rparr>"
  proof (cases "render_cards es")
    case (Inl e)
    then show ?thesis
      by (simp add: renderEmployeeList_def innerHTML_def no_employees_def)
  next
    case (Inr ms)
    have "map node_markup (card_elements h es ms) = ms" for h
      using card_elements_facts(2) render_cards_length [OF Inr] by simp
    with Inr show ?thesis
      by (simp add: renderEmployeeList_def innerHTML_def no_employees_def)
  qed
  from card rest show ?thesis by (rule conjI)
qed

text \<open>
  Claim C9 as stated fails for \<open>renderEmployeeList\<close>, which is not free of side effects:
  called on the empty sequence while the page shows employee 7, it replaces the list by
  the sentinel paragraph.
\<close>

theorem renderEmployeeList_writes_page:
  "employeeListDiv (snd (renderEmployeeList [] page7)) = [no_employees]
   \<and> employeeListDiv page7 \<noteq> [no_employees]
   \<and> snd (renderEmployeeList [] page7) \<noteq> page7"
proof -
  have a: "employeeListDiv (snd (renderEmployeeList [] page7)) = [no_employees]"
    and b: "employeeListDiv page7 \<noteq> [no_employees]"
    by code_simp+
  from a b have "snd (renderEmployeeList [] page7) \<noteq> page7" by metis
  with a b show ?thesis by simp
qed

section \<open>The status line over time\<close>

lemma fold_timers_text:
  "msg_textContent (messageArea (fold (\<lambda>p. run_timer (snd p)) ps s))
   = (if list_ex (\<lambda>p. snd p = ClearMessage) ps then [] else msg_textContent (messageArea s))"
proof (induction ps arbitrary: s)
  case Nil
  then show ?case by simp
next
  case (Cons p ps)
  then show ?case by (cases "snd p") simp_all
qed

lemma fold_timers_color:
  "msg_color (messageArea (fold (\<lambda>p. run_timer (snd p)) ps s)) = msg_color (messageArea s)"
proof (induction ps arbitrary: s)
  case Nil
  then show ?case by simp
next
  case (Cons p ps)
  then show ?case by (cases "snd p") simp_all
qed

lemma advance_text:
  "msg_textContent (messageArea (advance t s))
   = (if list_ex (\<lambda>p. fst p \<le> t \<and> snd p = ClearMessage) (timers s) then []
      else msg_textContent (messageArea s))"
  by (auto simp add: advance_def fold_timers_text list_ex_iff due_def)

lemma advance_color: "msg_color (messageArea (advance t s)) = msg_color (messageArea s)"
  by (simp add: advance_def fold_timers_color)

text \<open>
  Claim C8, as amended. Every call of \<open>showMessage\<close> sets the text and the colour of the
  status line and adds a timer that clears the text 5000 ms later, next to the timers
  that are pending, none of which it cancels. As time passes the line keeps its colour,
  and its text is cleared as soon as any pending clearing timer is due, whether it is the
  timer of this call or of an earlier one: the text is gone once 5000 ms have passed, and
  it stays for the whole 5000 ms when no clearing timer was pending at the call.
\<close>

theorem showMessage_and_timers:
  "messageArea (showMessage text color s) = \<lparr>msg_textContent = text, msg_color = color\<rparr>
   \<and> timers (showMessage text color s) = timers s @ [(clock s + 5000, ClearMessage)]
   \<and> msg_textContent (messageArea (advance t (showMessage text color s)))
     = (if list_ex (\<lambda>p. fst p \<le> t \<and> snd p = ClearMessage)
             (timers s @ [(clock s + 5000, ClearMessage)])
        then [] else text)
   \<and> msg_color (messageArea (advance t (showMessage text color s))) = color
   \<and> (clock s + 5000 \<le> t \<longrightarrow>
        msg_textContent (messageArea (advance t (showMessage text color s))) = [])
   \<and> (t < clock s + 5000 \<and> \<not> list_ex (\<lambda>p. snd p = ClearMessage) (timers s) \<longrightarrow>
        msg_textContent (messageArea (advance t (showMessage text color s))) = text)"
proof -
  have m: "messageArea (showMessage text color s)
       = \<lparr>msg_textContent = text, msg_color = color\<rparr>"
    and p: "timers (showMessage text color s) = timers s @ [(clock s + 5000, ClearMessage)]"
    by (simp_all add: showMessage_def setTimeout_def)
  have x: "msg_textContent (messageArea (advance t (showMessage text color s)))
     = (if list_ex (\<lambda>p. fst p \<le> t \<and> snd p = ClearMessage)
             (timers s @ [(clock s + 5000, ClearMessage)])
        then [] else text)"
    by (simp only: advance_text m p status_line.simps)
  have c: "msg_color (messageArea (advance t (showMessage text color s))) = color"
    by (simp add: advance_color m)
  have a: "clock s + 5000 \<le> t \<longrightarrow>
        msg_textContent (messageArea (advance t (showMessage text color s))) = []"
    by (simp add: x)
  have b: "t < clock s + 5000 \<and> \<not> list_ex (\<lambda>p. snd p = ClearMessage) (timers s) \<longrightarrow>
        msg_textContent (messageArea (advance t (showMessage text color s))) = text"
    by (auto simp add: x list_ex_iff)
  from m p x c a b show ?thesis by (intro conjI)
qed

text \<open>
  Claim C8 as amended, on a message shown while no timer is pending: still there after
  4999 ms, cleared after 5000 ms.
\<close>

theorem showMessage_and_timers_single:
  "clock page0 + 5000 \<le> 5000
   \<and> msg_textContent (messageArea (advance 5000 (showMessage ''A'' ''red'' page0))) = []
   \<and> 4999 < clock page0 + 5000
   \<and> \<not> list_ex (\<lambda>p. snd p = ClearMessage) (timers page0)
   \<and> msg_textContent (messageArea (advance 4999 (showMessage ''A'' ''red'' page0))) = ''A''"
proof -
  have h: "clock page0 + 5000 \<le> 5000" "4999 < clock page0 + 5000"
    "\<not> list_ex (\<lambda>p. snd p = ClearMessage) (timers page0)"
    by (simp_all add: page0_def)
  from showMessage_and_timers [of "''A''" "''red''" page0 5000] h(1)
  have a: "msg_textContent (messageArea (advance 5000 (showMessage ''A'' ''red'' page0))) = []"
    by blast
  from showMessage_and_timers [of "''A''" "''red''" page0 4999] h(2,3)
  have b: "msg_textContent (messageArea (advance 4999 (showMessage ''A'' ''red'' page0))) = ''A''"
    by blast
  from h a b show ?thesis by (intro conjI)
qed

text \<open>
  Claim C8 as stated fails: a later call does not supersede the pending clear of an
  earlier one. With a message shown at time 0 and another at time 3000, the timer of the
  first call clears the second message at time 5000, two seconds after it was shown,
  while the timer of the second call is still pending.
\<close>

theorem later_message_cleared_early:
  "timers two_messages = [(5000, ClearMessage), (8000, ClearMessage)]
   \<and> clock two_messages = 3000
   \<and> msg_textContent (messageArea two_messages) = ''B''
   \<and> msg_textContent (messageArea (advance 4999 two_messages)) = ''B''
   \<and> msg_textContent (messageArea (advance 5000 two_messages)) = []
   \<and> timers (advance 5000 two_messages) = [(8000, ClearMessage)]"
proof -
  have t: "timers two_messages = [(5000, ClearMessage), (8000, ClearMessage)]"
    and c: "clock two_messages = 3000"
    and m: "msg_textContent (messageArea two_messages) = ''B''"
    by (simp_all add: two_messages_def showMessage_def setTimeout_def advance_def due_def
        page0_def)
  have a: "msg_textContent (messageArea (advance 4999 two_messages)) = ''B''"
    and b: "msg_textContent (messageArea (advance 5000 two_messages)) = []"
    by (simp_all add: advance_text t m)
  have r: "timers (advance 5000 two_messages) = [(8000, ClearMessage)]"
    by (simp add: advance_def t due_def fold_timers_text)
  from t c m a b r show ?thesis by (intro conjI)
qed

end
